theory Spec2Isabelle
  imports Main "HOL-Library.Multiset"
begin

section \<open>Data model\<close>

text \<open>
  JavaScript strings are modelled as \<^typ>\<open>string\<close>; one \<^typ>\<open>char\<close> stands for one
  code unit below 256. A thrown \<^verbatim>\<open>Error\<close> (or a rejected promise) is a value of
  \<open>js_error\<close>, and code that can throw returns \<open>js_error + 'a\<close> with \<open>Inl\<close> the
  exception.
\<close>

datatype js_error = Error (message: string)

text \<open>\<^verbatim>\<open>interface BlogFrontMatter\<close> and \<^verbatim>\<open>interface BlogPost\<close> of \<^verbatim>\<open>utils/markdown.ts\<close>.\<close>

record BlogFrontMatter =
  title :: string
  date :: string
  slug :: string
  excerpt :: string
  featuredImage :: "string option"

record BlogPost = BlogFrontMatter +
  content :: string

text \<open>
  A row of the remote table \<^verbatim>\<open>blog_posts\<close>, with the column names of the wire format;
  it is also the shape of the payload that the uploader inserts.
\<close>

record blog_posts_row =
  slug :: string
  title :: string
  date :: string
  excerpt :: string
  featured_image :: "string option"
  content :: string
  created_at :: string

text \<open>What an awaited query of the remote client resolves to: \<^verbatim>\<open>{ data, error }\<close>.\<close>

record 'a response =
  data :: "'a option"
  error :: "js_error option"

text \<open>
  The libraries the code calls are not part of the repository; they are parameters of
  the model. \<open>getTime s\<close> is \<^verbatim>\<open>new Date(s).getTime()\<close>, with \<open>None\<close> for \<^verbatim>\<open>NaN\<close>.
\<close>

record libs =
  slugify :: "string \<Rightarrow> string"
  toLowerCase :: "string \<Rightarrow> string"
  turndown :: "string \<Rightarrow> string"
  marked_parse :: "string \<Rightarrow> js_error + string"
  sanitize :: "string \<Rightarrow> string"
  frontMatter :: "string \<Rightarrow> js_error + (BlogFrontMatter \<times> string)"
  getTime :: "string \<Rightarrow> int option"

text \<open>
  The local documents \<^verbatim>\<open>import.meta.glob('/content/blog/*.md')\<close>: each path with what
  awaiting its loader gives, in the enumeration order of \<^verbatim>\<open>for (const path in ...)\<close>.
\<close>

type_synonym markdownFiles = "(string \<times> (js_error + string)) list"

section \<open>Content resolution (\<^verbatim>\<open>utils/markdown.ts\<close>)\<close>

text \<open>The callback of \<^verbatim>\<open>supabasePosts.map\<close>, also the object built from \<^verbatim>\<open>supabaseData\<close>.\<close>

definition rowToPost :: "blog_posts_row \<Rightarrow> BlogPost" where
  "rowToPost post =
     \<lparr>BlogFrontMatter.title = blog_posts_row.title post,
      BlogFrontMatter.date = blog_posts_row.date post,
      BlogFrontMatter.slug = blog_posts_row.slug post,
      BlogFrontMatter.excerpt = blog_posts_row.excerpt post,
      BlogFrontMatter.featuredImage = featured_image post,
      BlogPost.content = blog_posts_row.content post\<rparr>"

text \<open>\<^verbatim>\<open>{ ...attributes, content: DOMPurify.sanitize(marked.parse(body)) }\<close>\<close>

definition renderPost :: "libs \<Rightarrow> BlogFrontMatter \<Rightarrow> string \<Rightarrow> js_error + BlogPost" where
  "renderPost L attributes body =
     (case marked_parse L body of
        Inl e \<Rightarrow> Inl e
      | Inr html \<Rightarrow>
          Inr \<lparr>BlogFrontMatter.title = BlogFrontMatter.title attributes,
               BlogFrontMatter.date = BlogFrontMatter.date attributes,
               BlogFrontMatter.slug = BlogFrontMatter.slug attributes,
               BlogFrontMatter.excerpt = BlogFrontMatter.excerpt attributes,
               BlogFrontMatter.featuredImage = BlogFrontMatter.featuredImage attributes,
               BlogPost.content = sanitize L html\<rparr>)"

text \<open>The body of the inner \<^verbatim>\<open>try\<close> of \<^verbatim>\<open>getAllPosts\<close> for one file.\<close>

definition processFile :: "libs \<Rightarrow> js_error + string \<Rightarrow> js_error + BlogPost" where
  "processFile L loaded =
     (case loaded of
        Inl e \<Rightarrow> Inl e
      | Inr raw \<Rightarrow>
          (case frontMatter L raw of
             Inl e \<Rightarrow> Inl e
           | Inr (attributes, body) \<Rightarrow> renderPost L attributes body))"

text \<open>
  The loop \<^verbatim>\<open>for (const path in markdownFiles)\<close> of \<^verbatim>\<open>getAllPosts\<close>; the inner
  \<^verbatim>\<open>catch\<close> logs and goes on with the next file.
\<close>

fun collectPosts :: "libs \<Rightarrow> markdownFiles \<Rightarrow> BlogPost list \<Rightarrow> BlogPost list" where
  "collectPosts L [] posts = posts"
| "collectPosts L ((path, loaded) # files) posts =
     (case processFile L loaded of
        Inl e \<Rightarrow> collectPosts L files posts
      | Inr post \<Rightarrow> collectPosts L files (posts @ [post]))"

text \<open>
  The comparator \<^verbatim>\<open>(a, b) => new Date(b.date).getTime() - new Date(a.date).getTime()\<close>;
  \<open>None\<close> is \<^verbatim>\<open>NaN\<close>.
\<close>

definition compareDates :: "libs \<Rightarrow> BlogPost \<Rightarrow> BlogPost \<Rightarrow> int option" where
  "compareDates L a b =
     (case getTime L (BlogFrontMatter.date b) of
        None \<Rightarrow> None
      | Some tb \<Rightarrow>
          (case getTime L (BlogFrontMatter.date a) of
             None \<Rightarrow> None
           | Some ta \<Rightarrow> Some (tb - ta)))"

text \<open>
  \<^verbatim>\<open>Array.prototype.sort\<close>. ECMAScript reads a comparator result \<^verbatim>\<open>NaN\<close> as \<open>+0\<close> and
  requires a stable sort; for a consistent comparator the result is then determined,
  and the stable insertion sort below computes it. For an inconsistent comparator
  the order is implementation-defined, and only the fact that the result is a
  permutation is common to all engines.
\<close>

definition sortCompare :: "('a \<Rightarrow> 'a \<Rightarrow> int option) \<Rightarrow> 'a \<Rightarrow> 'a \<Rightarrow> int" where
  "sortCompare comparefn x y = (case comparefn x y of None \<Rightarrow> 0 | Some v \<Rightarrow> v)"

fun insertSorted :: "('a \<Rightarrow> 'a \<Rightarrow> int option) \<Rightarrow> 'a \<Rightarrow> 'a list \<Rightarrow> 'a list" where
  "insertSorted comparefn x [] = [x]"
| "insertSorted comparefn x (y # ys) =
     (if 0 < sortCompare comparefn x y then y # insertSorted comparefn x ys
      else x # y # ys)"

definition array_sort :: "('a \<Rightarrow> 'a \<Rightarrow> int option) \<Rightarrow> 'a list \<Rightarrow> 'a list" where
  "array_sort comparefn xs = foldr (insertSorted comparefn) xs []"

text \<open>
  The body of the outer \<^verbatim>\<open>try\<close> of \<^verbatim>\<open>getAllPosts\<close>. \<open>remote\<close> is the outcome of
  awaiting the query \<^verbatim>\<open>.select('*').order('created_at', { ascending: false })\<close>:
  \<open>Inl\<close> when the awaited promise rejects.
\<close>

definition getAllPosts_try ::
  "libs \<Rightarrow> js_error + blog_posts_row list response \<Rightarrow> markdownFiles \<Rightarrow> js_error + BlogPost list"
where
  "getAllPosts_try L remote files =
     (case remote of
        Inl e \<Rightarrow> Inl e
      | Inr r \<Rightarrow>
          (case data r of
             None \<Rightarrow> Inr (array_sort (compareDates L) (collectPosts L files []))
           | Some supabasePosts \<Rightarrow>
               if 0 < length supabasePosts then Inr (map rowToPost supabasePosts)
               else Inr (array_sort (compareDates L) (collectPosts L files []))))"

text \<open>\<^verbatim>\<open>getAllPosts\<close>: the outer \<^verbatim>\<open>catch\<close> logs and returns \<^verbatim>\<open>[]\<close>.\<close>

definition getAllPosts ::
  "libs \<Rightarrow> js_error + blog_posts_row list response \<Rightarrow> markdownFiles \<Rightarrow> js_error + BlogPost list"
where
  "getAllPosts L remote files =
     (case getAllPosts_try L remote files of
        Inl err \<Rightarrow> Inr []
      | Inr posts \<Rightarrow> Inr posts)"

text \<open>
  The body of the inner \<^verbatim>\<open>try\<close> of \<^verbatim>\<open>getPostBySlug\<close> for one file: \<open>Inr None\<close>
  when the header's slug is another one and the loop goes on.
\<close>

definition matchFile :: "libs \<Rightarrow> string \<Rightarrow> js_error + string \<Rightarrow> js_error + BlogPost option" where
  "matchFile L slug' loaded =
     (case loaded of
        Inl e \<Rightarrow> Inl e
      | Inr raw \<Rightarrow>
          (case frontMatter L raw of
             Inl e \<Rightarrow> Inl e
           | Inr (attributes, body) \<Rightarrow>
               if BlogFrontMatter.slug attributes = slug'
               then (case renderPost L attributes body of
                       Inl e \<Rightarrow> Inl e
                     | Inr post \<Rightarrow> Inr (Some post))
               else Inr None))"

fun findLocal :: "libs \<Rightarrow> string \<Rightarrow> markdownFiles \<Rightarrow> BlogPost option" where
  "findLocal L slug' [] = None"
| "findLocal L slug' ((path, loaded) # files) =
     (case matchFile L slug' loaded of
        Inl e \<Rightarrow> findLocal L slug' files
      | Inr None \<Rightarrow> findLocal L slug' files
      | Inr (Some post) \<Rightarrow> Some post)"

text \<open>
  The body of the outer \<^verbatim>\<open>try\<close> of \<^verbatim>\<open>getPostBySlug\<close>; \<open>remote\<close> is the outcome of
  awaiting \<^verbatim>\<open>.select('*').eq('slug', slug).single()\<close>. \<open>None\<close> is \<^verbatim>\<open>null\<close>.
\<close>

definition getPostBySlug_try ::
  "libs \<Rightarrow> js_error + blog_posts_row response \<Rightarrow> markdownFiles \<Rightarrow> string
     \<Rightarrow> js_error + BlogPost option"
where
  "getPostBySlug_try L remote files slug' =
     (case remote of
        Inl e \<Rightarrow> Inl e
      | Inr r \<Rightarrow>
          (case data r of
             Some supabaseData \<Rightarrow> Inr (Some (rowToPost supabaseData))
           | None \<Rightarrow> Inr (findLocal L slug' files)))"

definition getPostBySlug ::
  "libs \<Rightarrow> js_error + blog_posts_row response \<Rightarrow> markdownFiles \<Rightarrow> string
     \<Rightarrow> js_error + BlogPost option"
where
  "getPostBySlug L remote files slug' =
     (case getPostBySlug_try L remote files slug' of
        Inl err \<Rightarrow> Inr None
      | Inr found \<Rightarrow> Inr found)"

section \<open>The two regular expressions of the uploader\<close>

text \<open>
  Among the code units below 256, \<^verbatim>\<open>\s\<close> and \<^verbatim>\<open>String.prototype.trim\<close> take TAB, LF,
  VT, FF, CR, space and NBSP for white space, and LF and CR are the line terminators:
  \<^verbatim>\<open>.\<close> matches every other character, and under the flag \<^verbatim>\<open>m\<close> the assertion \<^verbatim>\<open>^\<close>
  holds at the start of the text and after a line terminator, \<^verbatim>\<open>$\<close> at the end of the
  text and before a line terminator.
\<close>

definition isLineTerminator :: "char \<Rightarrow> bool" where
  "isLineTerminator c = (c = CHR 0x0A \<or> c = CHR 0x0D)"

definition isWhiteSpace :: "char \<Rightarrow> bool" where
  "isWhiteSpace c =
     (c = CHR 0x09 \<or> c = CHR 0x0A \<or> c = CHR 0x0B \<or> c = CHR 0x0C \<or> c = CHR 0x0D
      \<or> c = CHR 0x20 \<or> c = CHR 0xA0)"

definition trim :: "string \<Rightarrow> string" where
  "trim s = rev (dropWhile isWhiteSpace (rev (dropWhile isWhiteSpace s)))"

text \<open>
  A backtracking matcher tries alternatives in order and keeps the first that lets
  the rest of the pattern match.
\<close>

fun firstMatch :: "('a \<Rightarrow> 'b option) \<Rightarrow> 'a list \<Rightarrow> 'b option" where
  "firstMatch f [] = None"
| "firstMatch f (x # xs) = (case f x of Some y \<Rightarrow> Some y | None \<Rightarrow> firstMatch f xs)"

text \<open>
  A greedy quantifier over a character class, with at least \<open>n\<close> repetitions: the
  ways to split the input into what the quantifier takes and what it leaves, the
  longest first.
\<close>

definition greedy :: "nat \<Rightarrow> (char \<Rightarrow> bool) \<Rightarrow> string \<Rightarrow> (string \<times> string) list" where
  "greedy n P s = map (\<lambda>k. (take k s, drop k s)) (rev [n ..< Suc (length (takeWhile P s))])"

text \<open>
  The suffixes of the text that start where \<^verbatim>\<open>^\<close> holds, from left to right; the flag
  says whether the current position is such a place.
\<close>

fun lineStarts :: "bool \<Rightarrow> string \<Rightarrow> string list" where
  "lineStarts b [] = (if b then [ [] ] else [])"
| "lineStarts b (c # s) = (if b then [c # s] else []) @ lineStarts (isLineTerminator c) s"

text \<open>The assertion \<^verbatim>\<open>$\<close> on what is left of the text.\<close>

definition atLineEnd :: "string \<Rightarrow> bool" where
  "atLineEnd r = (case r of [] \<Rightarrow> True | c # r' \<Rightarrow> isLineTerminator c)"

text \<open>\<^verbatim>\<open>#\s*(.+)$\<close> tried at one position; the result is capture group 1.\<close>

definition titleRegexAt :: "string \<Rightarrow> string option" where
  "titleRegexAt r =
     (case r of
        [] \<Rightarrow> None
      | c # r1 \<Rightarrow>
          if c = CHR ''#''
          then firstMatch
                 (\<lambda>(ws, r2).
                    firstMatch (\<lambda>(g, r3). if atLineEnd r3 then Some g else None)
                      (greedy 1 (\<lambda>c. \<not> isLineTerminator c) r2))
                 (greedy 0 isWhiteSpace r1)
          else None)"

text \<open>\<^verbatim>\<open>markdownContent.match(/^#\s*(.+)$/m)\<close>: \<open>None\<close> is \<^verbatim>\<open>null\<close>, \<open>Some g\<close> has \<open>g\<close> as \<^verbatim>\<open>titleMatch[1]\<close>.\<close>

definition titleMatch :: "string \<Rightarrow> string option" where
  "titleMatch markdownContent = firstMatch titleRegexAt (lineStarts True markdownContent)"

text \<open>\<^verbatim>\<open>[^#\n]+\<close> tried at one position; the result is the whole match.\<close>

definition excerptRegexAt :: "string \<Rightarrow> string option" where
  "excerptRegexAt r =
     firstMatch (\<lambda>(m, r'). Some m) (greedy 1 (\<lambda>c. c \<noteq> CHR ''#'' \<and> c \<noteq> CHR 0x0A) r)"

text \<open>\<^verbatim>\<open>markdownContent.match(/^[^#\n]+/m)\<close>: \<open>Some m\<close> has \<open>m\<close> as \<^verbatim>\<open>excerptMatch[0]\<close>.\<close>

definition excerptMatch :: "string \<Rightarrow> string option" where
  "excerptMatch markdownContent = firstMatch excerptRegexAt (lineStarts True markdownContent)"

section \<open>Upload conversion (the component \<^verbatim>\<open>HtmlUploader\<close>)\<close>

record metadata =
  title :: string
  slug :: string
  date :: string
  featuredImage :: string
  excerpt :: string

text \<open>What the code reads of a \<^verbatim>\<open>File\<close>.\<close>

record File =
  name :: string
  type :: string

text \<open>The state hooks of the component.\<close>

record uploader_state =
  file' :: "File option"
  markdown :: string
  metadata :: metadata
  error :: "string option"
  isDeploying :: bool

text \<open>
  The initial values of the hooks; \<open>now\<close> is \<^verbatim>\<open>new Date().toISOString()\<close> when the
  component is first rendered, and \<^verbatim>\<open>.split('T')[0]\<close> is its part before the first T.
\<close>

definition currentDate :: "string \<Rightarrow> string" where
  "currentDate now = takeWhile (\<lambda>c. c \<noteq> CHR ''T'') now"

definition initialState :: "string \<Rightarrow> uploader_state" where
  "initialState now =
     \<lparr>file' = None,
      markdown = [],
      metadata =
        \<lparr>metadata.title = [],
         metadata.slug = [],
         metadata.date = currentDate now,
         metadata.featuredImage = [],
         metadata.excerpt = []\<rparr>,
      uploader_state.error = None,
      isDeploying = False\<rparr>"

definition endsWith :: "string \<Rightarrow> string \<Rightarrow> bool" where
  "endsWith s t = (length t \<le> length s \<and> drop (length s - length t) s = t)"

text \<open>
  \<^verbatim>\<open>handleFileSelect\<close> up to \<^verbatim>\<open>reader.readAsText\<close>: the new state, and whether the file
  is handed to the reader.
\<close>

definition handleFileSelect :: "libs \<Rightarrow> File \<Rightarrow> uploader_state \<Rightarrow> uploader_state \<times> bool" where
  "handleFileSelect L selectedFile st =
     (if type selectedFile \<noteq> ''text/html''
         \<and> \<not> endsWith (toLowerCase L (name selectedFile)) ''.html''
      then (st\<lparr>uploader_state.error := Some ''Please select a valid HTML file''\<rparr>, False)
      else (st\<lparr>file' := Some selectedFile, uploader_state.error := None\<rparr>, True))"

text \<open>The metadata update \<^verbatim>\<open>prev => ({ ...prev, title, slug, excerpt })\<close>.\<close>

definition extractMetadata :: "libs \<Rightarrow> string \<Rightarrow> metadata \<Rightarrow> metadata" where
  "extractMetadata L markdownContent prev =
     prev\<lparr>metadata.title :=
            (case titleMatch markdownContent of None \<Rightarrow> [] | Some g \<Rightarrow> trim g),
          metadata.slug :=
            (case titleMatch markdownContent of
               None \<Rightarrow> []
             | Some g \<Rightarrow> slugify L (toLowerCase L g)),
          metadata.excerpt :=
            (case excerptMatch markdownContent of
               None \<Rightarrow> []
             | Some m \<Rightarrow> take 200 (trim m))\<rparr>"

text \<open>\<^verbatim>\<open>reader.onload\<close>, run when the reader has the text of the file.\<close>

definition reader_onload :: "libs \<Rightarrow> string \<Rightarrow> uploader_state \<Rightarrow> uploader_state" where
  "reader_onload L htmlContent st =
     (let markdownContent = turndown L htmlContent
      in st\<lparr>markdown := markdownContent,
            metadata := extractMetadata L markdownContent (metadata st)\<rparr>)"

text \<open>
  Selecting a file whose text the reader delivers (\<open>Inr\<close>) or fails to deliver
  (\<open>Inl\<close>: no \<^verbatim>\<open>onerror\<close> handler is installed, nothing more happens).
\<close>

definition selectFile ::
  "libs \<Rightarrow> File \<Rightarrow> js_error + string \<Rightarrow> uploader_state \<Rightarrow> uploader_state"
where
  "selectFile L selectedFile contents st =
     (case handleFileSelect L selectedFile st of
        (st1, False) \<Rightarrow> st1
      | (st1, True) \<Rightarrow>
          (case contents of Inl e \<Rightarrow> st1 | Inr htmlContent \<Rightarrow> reader_onload L htmlContent st1))"

text \<open>The \<^verbatim>\<open>onChange\<close> handlers of the two inputs.\<close>

definition titleChange :: "libs \<Rightarrow> string \<Rightarrow> uploader_state \<Rightarrow> uploader_state" where
  "titleChange L v st =
     st\<lparr>metadata := (metadata st)\<lparr>metadata.title := v,
                                   metadata.slug := slugify L (toLowerCase L v)\<rparr>\<rparr>"

definition markdownChange :: "string \<Rightarrow> uploader_state \<Rightarrow> uploader_state" where
  "markdownChange v st = st\<lparr>markdown := v\<rparr>"

text \<open>The payload of \<^verbatim>\<open>handleDeploy\<close>; \<open>now\<close> is \<^verbatim>\<open>new Date().toISOString()\<close> at that point.\<close>

definition buildPayload :: "libs \<Rightarrow> string \<Rightarrow> uploader_state \<Rightarrow> blog_posts_row" where
  "buildPayload L now st =
     \<lparr>blog_posts_row.slug = slugify L (toLowerCase L (metadata.title (metadata st))),
      blog_posts_row.title = metadata.title (metadata st),
      blog_posts_row.date = metadata.date (metadata st),
      blog_posts_row.excerpt =
        (if metadata.excerpt (metadata st) = [] then take 200 (markdown st)
         else metadata.excerpt (metadata st)),
      blog_posts_row.featured_image =
        (if metadata.featuredImage (metadata st) = [] then None
         else Some (metadata.featuredImage (metadata st))),
      blog_posts_row.content = markdown st,
      blog_posts_row.created_at = now\<rparr>"

text \<open>The \<^verbatim>\<open>catch\<close> and \<^verbatim>\<open>finally\<close> blocks of \<^verbatim>\<open>handleDeploy\<close>.\<close>

definition deployFailed :: "js_error \<Rightarrow> uploader_state \<Rightarrow> uploader_state" where
  "deployFailed err st =
     st\<lparr>uploader_state.error :=
          Some (if message err = [] then ''Failed to deploy blog post'' else message err),
        isDeploying := False\<rparr>"

text \<open>
  \<^verbatim>\<open>handleDeploy\<close> up to the \<^verbatim>\<open>await\<close>: the new state and the payload handed to
  \<^verbatim>\<open>insert\<close>, if the call is reached.
\<close>

definition handleDeploy_begin ::
  "libs \<Rightarrow> string \<Rightarrow> uploader_state \<Rightarrow> uploader_state \<times> blog_posts_row option"
where
  "handleDeploy_begin L now st =
     (let st1 = st\<lparr>isDeploying := True, uploader_state.error := None\<rparr>
      in if metadata.title (metadata st) = [] \<or> markdown st = []
         then (deployFailed (Error ''Title and content are required'') st1, None)
         else (st1, Some (buildPayload L now st)))"

text \<open>
  \<^verbatim>\<open>handleDeploy\<close> after the \<^verbatim>\<open>await\<close>, on the state as it is by then: the new state and
  the route navigated to. \<open>settled\<close> is \<open>Inl\<close> when the awaited insert rejects.
\<close>

definition handleDeploy_resume ::
  "string \<Rightarrow> js_error + blog_posts_row list response \<Rightarrow> uploader_state
     \<Rightarrow> uploader_state \<times> string option"
where
  "handleDeploy_resume slug' settled st =
     (case settled of
        Inl err \<Rightarrow> (deployFailed err st, None)
      | Inr r \<Rightarrow>
          (case response.error r of
             Some err \<Rightarrow> (deployFailed err st, None)
           | None \<Rightarrow> (st\<lparr>isDeploying := False\<rparr>, Some (''/blog/'' @ slug'))))"

text \<open>
  One run of \<^verbatim>\<open>handleDeploy\<close> with nothing in between: the final state, the payloads
  handed to \<^verbatim>\<open>insert\<close>, and the route navigated to. \<open>store\<close> is what the remote
  store answers to an insert.
\<close>

definition handleDeploy ::
  "libs \<Rightarrow> string \<Rightarrow> (blog_posts_row \<Rightarrow> js_error + blog_posts_row list response)
     \<Rightarrow> uploader_state \<Rightarrow> uploader_state \<times> blog_posts_row list \<times> string option"
where
  "handleDeploy L now store st =
     (case handleDeploy_begin L now st of
        (st1, None) \<Rightarrow> (st1, [], None)
      | (st1, Some payload) \<Rightarrow>
          (case handleDeploy_resume (blog_posts_row.slug payload) (store payload) st1 of
             (st2, route) \<Rightarrow> (st2, [payload], route)))"

subsection \<open>The component as a transition system\<close>

text \<open>
  The component reacts to one event at a time, and React commits the state updates
  of a handler before the next event is dispatched. A click on the button reaches
  \<^verbatim>\<open>handleDeploy\<close> only if the button is rendered enabled, and the two inputs exist
  only while \<^verbatim>\<open>markdown\<close> is non-empty. \<open>inflight\<close> holds the payloads whose insert
  has been called and not yet settled.
\<close>

record world =
  ui :: uploader_state
  inflight :: "blog_posts_row list"

datatype event =
    ClickDeploy string
  | InsertSettled "js_error + blog_posts_row list response"
  | TitleChange string
  | MarkdownChange string
  | FileChosen File
  | ReaderLoaded string

text \<open>\<^verbatim>\<open>disabled={!metadata.title || !markdown || isDeploying}\<close>\<close>

definition deployDisabled :: "uploader_state \<Rightarrow> bool" where
  "deployDisabled st = (metadata.title (metadata st) = [] \<or> markdown st = [] \<or> isDeploying st)"

fun step :: "libs \<Rightarrow> world \<Rightarrow> event \<Rightarrow> world" where
  "step L w (ClickDeploy now) =
     (if markdown (ui w) = [] then w
      else if deployDisabled (ui w) then w
      else (case handleDeploy_begin L now (ui w) of
              (st1, None) \<Rightarrow> w\<lparr>ui := st1\<rparr>
            | (st1, Some payload) \<Rightarrow> w\<lparr>ui := st1, inflight := inflight w @ [payload]\<rparr>))"
| "step L w (InsertSettled settled) =
     (case inflight w of
        [] \<Rightarrow> w
      | payload # rest \<Rightarrow>
          w\<lparr>ui := fst (handleDeploy_resume (blog_posts_row.slug payload) settled (ui w)),
            inflight := rest\<rparr>)"
| "step L w (TitleChange v) =
     (if markdown (ui w) = [] then w else w\<lparr>ui := titleChange L v (ui w)\<rparr>)"
| "step L w (MarkdownChange v) =
     (if markdown (ui w) = [] then w else w\<lparr>ui := markdownChange v (ui w)\<rparr>)"
| "step L w (FileChosen selectedFile) = w\<lparr>ui := fst (handleFileSelect L selectedFile (ui w))\<rparr>"
| "step L w (ReaderLoaded htmlContent) = w\<lparr>ui := reader_onload L htmlContent (ui w)\<rparr>"

definition run :: "libs \<Rightarrow> world \<Rightarrow> event list \<Rightarrow> world" where
  "run L w events = foldl (step L) w events"

definition initialWorld :: "string \<Rightarrow> world" where
  "initialWorld now = \<lparr>ui = initialState now, inflight = []\<rparr>"

text \<open>While an insert is outstanding there is one, and the component is deploying.\<close>

definition oneSubmission :: "world \<Rightarrow> bool" where
  "oneSubmission w =
     (case inflight w of [] \<Rightarrow> True | [payload] \<Rightarrow> isDeploying (ui w) | _ \<Rightarrow> False)"

section \<open>Properties and reference functions\<close>

text \<open>
  \<open>newerOrSame L p q\<close>: both dates are read by \<^verbatim>\<open>new Date\<close>, and \<open>p\<close> is not older than
  \<open>q\<close>. A list is sorted by date, newest first, when \<open>sorted_wrt (newerOrSame L)\<close> holds.
\<close>

definition newerOrSame :: "libs \<Rightarrow> BlogPost \<Rightarrow> BlogPost \<Rightarrow> bool" where
  "newerOrSame L p q =
     (case getTime L (BlogFrontMatter.date p) of
        None \<Rightarrow> False
      | Some tp \<Rightarrow>
          (case getTime L (BlogFrontMatter.date q) of None \<Rightarrow> False | Some tq \<Rightarrow> tq \<le> tp))"

text \<open>
  The record that the specification asks for a local document: when the document
  loads, its header parses and its body renders, the header fields with the
  sanitized rendering of the body as content; no record otherwise.
\<close>

definition localRecord :: "libs \<Rightarrow> js_error + string \<Rightarrow> BlogPost option" where
  "localRecord L loaded =
     (case loaded of
        Inl e \<Rightarrow> None
      | Inr raw \<Rightarrow>
          (case frontMatter L raw of
             Inl e \<Rightarrow> None
           | Inr (attributes, body) \<Rightarrow>
               (case marked_parse L body of
                  Inl e \<Rightarrow> None
                | Inr html \<Rightarrow>
                    Some \<lparr>BlogFrontMatter.title = BlogFrontMatter.title attributes,
                          BlogFrontMatter.date = BlogFrontMatter.date attributes,
                          BlogFrontMatter.slug = BlogFrontMatter.slug attributes,
                          BlogFrontMatter.excerpt = BlogFrontMatter.excerpt attributes,
                          BlogFrontMatter.featuredImage = BlogFrontMatter.featuredImage attributes,
                          BlogPost.content = sanitize L html\<rparr>)))"

subsection \<open>Metadata extraction, by lines\<close>











section \<open>Sample inputs\<close>

text \<open>
  Stand-ins for the libraries, right on the inputs used below: tables of what the
  libraries return there.
\<close>

definition sample_toLowerCase :: "string \<Rightarrow> string" where
  "sample_toLowerCase s =
     (if s = ''Hello'' then ''hello'' else if s = ''Post'' then ''post'' else s)"

definition sample_turndown :: "string \<Rightarrow> string" where
  "sample_turndown html =
     (if html = ''<h1>Hello</h1><p>World</p>'' then ''# Hello\<newline>\<newline>World''
      else if html = ''<h1>Post</h1><p>C# rocks</p>'' then ''# Post\<newline>\<newline>C# rocks''
      else html)"

definition sample_marked_parse :: "string \<Rightarrow> js_error + string" where
  "sample_marked_parse body =
     (if body = ''World'' then Inr ''<p>World</p>\<newline>''
      else if body = ''Again'' then Inr ''<p>Again</p>\<newline>''
      else Inr body)"

definition doc_hello :: string where
  "doc_hello =
     ''---\<newline>title: Hello\<newline>date: '2024-01-01'\<newline>slug: hello\<newline>excerpt: World\<newline>---\<newline>World''"

definition doc_again :: string where
  "doc_again =
     ''---\<newline>title: Again\<newline>date: '2024-01-02'\<newline>slug: again\<newline>excerpt: Again\<newline>---\<newline>Again''"

definition doc_untitled :: string where
  "doc_untitled =
     ''---\<newline>title: '' @ [CHR 0x22, CHR 0x22]
       @ ''\<newline>date: '2024-01-03'\<newline>slug: untitled\<newline>excerpt: World\<newline>---\<newline>World''"

definition doc_broken :: string where
  "doc_broken = ''---\<newline>title: [\<newline>---\<newline>World''"

definition sample_frontMatter :: "string \<Rightarrow> js_error + (BlogFrontMatter \<times> string)" where
  "sample_frontMatter raw =
     (if raw = doc_hello
      then Inr (\<lparr>BlogFrontMatter.title = ''Hello'', BlogFrontMatter.date = ''2024-01-01'',
                 BlogFrontMatter.slug = ''hello'', BlogFrontMatter.excerpt = ''World'',
                 BlogFrontMatter.featuredImage = None\<rparr>, ''World'')
      else if raw = doc_again
      then Inr (\<lparr>BlogFrontMatter.title = ''Again'', BlogFrontMatter.date = ''2024-01-02'',
                 BlogFrontMatter.slug = ''again'', BlogFrontMatter.excerpt = ''Again'',
                 BlogFrontMatter.featuredImage = None\<rparr>, ''Again'')
      else if raw = doc_untitled
      then Inr (\<lparr>BlogFrontMatter.title = [], BlogFrontMatter.date = ''2024-01-03'',
                 BlogFrontMatter.slug = ''untitled'', BlogFrontMatter.excerpt = ''World'',
                 BlogFrontMatter.featuredImage = None\<rparr>, ''World'')
      else Inl (Error ''bad front matter''))"

text \<open>Milliseconds since the epoch of the three dates used below.\<close>

definition sample_getTime :: "string \<Rightarrow> int option" where
  "sample_getTime s =
     (if s = ''2024-01-01'' then Some 1704067200000
      else if s = ''2024-01-02'' then Some 1704153600000
      else if s = ''2024-01-03'' then Some 1704240000000
      else None)"

definition sampleLibs :: libs where
  "sampleLibs =
     \<lparr>slugify = (\<lambda>s. s),
      toLowerCase = sample_toLowerCase,
      turndown = sample_turndown,
      marked_parse = sample_marked_parse,
      sanitize = (\<lambda>html. html),
      frontMatter = sample_frontMatter,
      getTime = sample_getTime\<rparr>"

definition sampleFiles :: markdownFiles where
  "sampleFiles =
     [(''/content/blog/hello.md'', Inr doc_hello),
      (''/content/blog/broken.md'', Inr doc_broken),
      (''/content/blog/again.md'', Inr doc_again)]"

definition sampleDraft :: uploader_state where
  "sampleDraft =
     \<lparr>file' = Some \<lparr>name = ''post.html'', type = ''text/html''\<rparr>,
      markdown = ''# Hello\<newline>\<newline>World'',
      metadata =
        \<lparr>metadata.title = ''Hello'',
         metadata.slug = ''hello'',
         metadata.date = ''2024-01-01'',
         metadata.featuredImage = [],
         metadata.excerpt = ''World''\<rparr>,
      uploader_state.error = None,
      isDeploying = False\<rparr>"

text \<open>A store that accepts every insert and answers with the inserted row.\<close>

definition sampleStore :: "blog_posts_row \<Rightarrow> js_error + blog_posts_row list response" where
  "sampleStore payload = Inr \<lparr>data = Some [payload], response.error = None\<rparr>"

definition row_hello :: blog_posts_row where
  "row_hello =
     \<lparr>blog_posts_row.slug = ''hello'',
      blog_posts_row.title = ''Hello'',
      blog_posts_row.date = ''2024-01-01'',
      blog_posts_row.excerpt = ''World'',
      blog_posts_row.featured_image = None,
      blog_posts_row.content = ''# Hello\<newline>\<newline>World'',
      blog_posts_row.created_at = ''2024-01-03T09:00:00.000Z''\<rparr>"

definition row_again :: blog_posts_row where
  "row_again =
     \<lparr>blog_posts_row.slug = ''again'',
      blog_posts_row.title = ''Again'',
      blog_posts_row.date = ''2024-01-02'',
      blog_posts_row.excerpt = ''Again'',
      blog_posts_row.featured_image = None,
      blog_posts_row.content = ''Again'',
      blog_posts_row.created_at = ''2024-01-02T12:00:00.000Z''\<rparr>"

definition row_untitled :: blog_posts_row where
  "row_untitled = row_again\<lparr>blog_posts_row.title := []\<rparr>"

definition xssDraft :: uploader_state where
  "xssDraft = sampleDraft\<lparr>markdown := ''<img src=x onerror=alert(1)>''\<rparr>"

section \<open>Auxiliary facts\<close>

subsection \<open>Local documents and the sort\<close>

lemma processFile_localRecord:
  "processFile L loaded = Inr p \<longleftrightarrow> localRecord L loaded = Some p"
  by (auto simp: processFile_def localRecord_def renderPost_def split: sum.splits prod.splits)

lemma processFile_Inl_localRecord:
  "(\<exists>e. processFile L loaded = Inl e) \<longleftrightarrow> localRecord L loaded = None"
  by (auto simp: processFile_def localRecord_def renderPost_def split: sum.splits prod.splits)

lemma collectPosts_map_filter:
  "collectPosts L files posts = posts @ List.map_filter (localRecord L) (map snd files)"
proof (induction files arbitrary: posts)
  case Nil
  show ?case by simp
next
  case (Cons f files)
  obtain path loaded where f: "f = (path, loaded)" by (cases f)
  show ?case
  proof (cases "processFile L loaded")
    case (Inl e)
    then have "localRecord L loaded = None"
      using processFile_Inl_localRecord [of L loaded] by blast
    with Inl Cons.IH f show ?thesis by simp
  next
    case (Inr p)
    then have "localRecord L loaded = Some p"
      by (simp add: processFile_localRecord)
    with Inr Cons.IH f show ?thesis by simp
  qed
qed

lemma mset_insertSorted: "mset (insertSorted c x ys) = add_mset x (mset ys)"
  by (induction ys) auto

lemma mset_array_sort: "mset (array_sort c xs) = mset xs"
  by (induction xs) (auto simp: array_sort_def mset_insertSorted)

lemma set_array_sort: "set (array_sort c xs) = set xs"
  using mset_array_sort [of c xs] by (metis set_mset_mset)

lemma findLocal_find:
  "findLocal L s files =
     find (\<lambda>p. BlogFrontMatter.slug p = s) (List.map_filter (localRecord L) (map snd files))"
proof (induction files)
  case Nil
  show ?case by simp
next
  case (Cons f files)
  obtain path loaded where f: "f = (path, loaded)" by (cases f)
  show ?case using Cons.IH f
    by (auto simp: matchFile_def localRecord_def renderPost_def
        split: sum.splits prod.splits option.splits)
qed

lemma localRecord_SomeD:
  assumes "localRecord L loaded = Some p"
  shows "\<exists>raw attributes body html.
           loaded = Inr raw \<and> frontMatter L raw = Inr (attributes, body)
           \<and> marked_parse L body = Inr html
           \<and> BlogFrontMatter.title p = BlogFrontMatter.title attributes
           \<and> BlogFrontMatter.date p = BlogFrontMatter.date attributes
           \<and> BlogFrontMatter.slug p = BlogFrontMatter.slug attributes
           \<and> BlogPost.content p = sanitize L html"
  using assms
  by (auto simp: localRecord_def split: sum.splits prod.splits)

lemma map_filter_localRecord_memD:
  assumes "p \<in> set (List.map_filter (localRecord L) (map snd files))"
  shows "\<exists>path loaded. (path, loaded) \<in> set files \<and> localRecord L loaded = Some p"
  using assms by (induction files) (fastforce split: option.splits)+

lemma findLocal_None:
  assumes "\<forall>path raw attributes body.
             (path, Inr raw) \<in> set files \<and> frontMatter L raw = Inr (attributes, body)
             \<longrightarrow> BlogFrontMatter.slug attributes \<noteq> s"
  shows "findLocal L s files = None"
proof -
  have "BlogFrontMatter.slug p \<noteq> s"
    if "p \<in> set (List.map_filter (localRecord L) (map snd files))" for p
  proof -
    from that obtain path loaded where m: "(path, loaded) \<in> set files"
        and r: "localRecord L loaded = Some p"
      using map_filter_localRecord_memD by blast
    from localRecord_SomeD [OF r] obtain raw attributes body where
      "loaded = Inr raw" "frontMatter L raw = Inr (attributes, body)"
      "BlogFrontMatter.slug p = BlogFrontMatter.slug attributes"
      by blast
    with m assms show ?thesis by metis
  qed
  then show ?thesis
    by (simp add: findLocal_find find_None_iff)
qed

section \<open>The read operations\<close>

text \<open>
  Claim C3. Neither read operation raises. \<open>getAllPosts\<close> always returns a list, the empty
  one whenever the body of its \<^verbatim>\<open>try\<close> throws; \<open>getPostBySlug\<close> always returns a record or
  \<^verbatim>\<open>null\<close>, and \<^verbatim>\<open>null\<close> when the remote store has no row for the slug and no local
  document that parses carries it.
\<close>

theorem read_operations_never_raise:
  "(\<exists>posts. getAllPosts L remote files = Inr posts)
   \<and> (\<forall>e. getAllPosts_try L remote files = Inl e \<longrightarrow> getAllPosts L remote files = Inr [])
   \<and> (\<exists>found. getPostBySlug L remote1 files s = Inr found)
   \<and> ((\<forall>r. remote1 = Inr r \<longrightarrow> data r = None)
        \<and> (\<forall>path raw attributes body.
              (path, Inr raw) \<in> set files \<and> frontMatter L raw = Inr (attributes, body)
              \<longrightarrow> BlogFrontMatter.slug attributes \<noteq> s)
      \<longrightarrow> getPostBySlug L remote1 files s = Inr None)"
proof (intro conjI allI impI)
  show "\<exists>posts. getAllPosts L remote files = Inr posts"
    by (simp add: getAllPosts_def split: sum.splits)
  show "getAllPosts L remote files = Inr []" if "getAllPosts_try L remote files = Inl e" for e
    using that by (simp add: getAllPosts_def)
  show "\<exists>found. getPostBySlug L remote1 files s = Inr found"
    by (simp add: getPostBySlug_def split: sum.splits)
  show "getPostBySlug L remote1 files s = Inr None"
    if h: "(\<forall>r. remote1 = Inr r \<longrightarrow> data r = None)
        \<and> (\<forall>path raw attributes body.
              (path, Inr raw) \<in> set files \<and> frontMatter L raw = Inr (attributes, body)
              \<longrightarrow> BlogFrontMatter.slug attributes \<noteq> s)"
  proof -
    from h have "findLocal L s files = None" by (intro findLocal_None) blast
    with h show ?thesis
      by (auto simp: getPostBySlug_def getPostBySlug_try_def split: sum.splits option.splits)
  qed
qed

theorem read_operations_never_raise_witness:
  "getAllPosts_try sampleLibs (Inl (Error ''Failed to fetch'')) sampleFiles
     = Inl (Error ''Failed to fetch'')
   \<and> getAllPosts sampleLibs (Inl (Error ''Failed to fetch'')) sampleFiles = Inr []
   \<and> getPostBySlug sampleLibs
        (Inr \<lparr>data = None, response.error = Some (Error ''no rows'')\<rparr>) sampleFiles ''missing''
     = Inr None"
  using read_operations_never_raise [of sampleLibs "Inl (Error ''Failed to fetch'')" sampleFiles
      "Inr \<lparr>data = None, response.error = Some (Error ''no rows'')\<rparr>" "''missing''"]
  by (simp add: getAllPosts_try_def sampleFiles_def sampleLibs_def sample_frontMatter_def
      doc_hello_def doc_again_def doc_broken_def doc_untitled_def)

lemma sorted_insertSorted:
  assumes "sorted_wrt (newerOrSame L) ys"
    and "getTime L (BlogFrontMatter.date x) \<noteq> None"
    and "\<forall>y\<in>set ys. getTime L (BlogFrontMatter.date y) \<noteq> None"
  shows "sorted_wrt (newerOrSame L) (insertSorted (compareDates L) x ys)"
  using assms
proof (induction ys)
  case Nil
  then show ?case by simp
next
  case (Cons y ys)
  then obtain tx ty where t: "getTime L (BlogFrontMatter.date x) = Some tx"
      "getTime L (BlogFrontMatter.date y) = Some ty"
    by auto
  have set_ins: "set (insertSorted (compareDates L) x ys) = insert x (set ys)"
    using mset_insertSorted [of "compareDates L" x ys]
    by (metis set_mset_mset set_mset_add_mset_insert)
  show ?case
  proof (cases "0 < sortCompare (compareDates L) x y")
    case True
    with t have "tx < ty" by (simp add: sortCompare_def compareDates_def)
    with t have "newerOrSame L y x" by (simp add: newerOrSame_def)
    with True Cons show ?thesis by (auto simp: set_ins)
  next
    case False
    with t have le: "ty \<le> tx" by (simp add: sortCompare_def compareDates_def)
    have "newerOrSame L x z" if "z \<in> set (y # ys)" for z
    proof -
      have "newerOrSame L x y" using t le by (simp add: newerOrSame_def)
      moreover have "newerOrSame L y z" if "z \<in> set ys" using Cons.prems(1) that by simp
      ultimately show ?thesis using that t le
        by (auto simp: newerOrSame_def split: option.splits)
    qed
    with False Cons.prems(1) show ?thesis by simp
  qed
qed

lemma sorted_array_sort:
  assumes "\<forall>x\<in>set xs. getTime L (BlogFrontMatter.date x) \<noteq> None"
  shows "sorted_wrt (newerOrSame L) (array_sort (compareDates L) xs)"
  using assms
proof (induction xs)
  case Nil
  show ?case by (simp add: array_sort_def)
next
  case (Cons x xs)
  then have "sorted_wrt (newerOrSame L) (array_sort (compareDates L) xs)" by simp
  moreover have "\<forall>y\<in>set (array_sort (compareDates L) xs). getTime L (BlogFrontMatter.date y) \<noteq> None"
    using Cons.prems by (simp add: set_array_sort)
  ultimately have "sorted_wrt (newerOrSame L)
      (insertSorted (compareDates L) x (array_sort (compareDates L) xs))"
    using Cons.prems by (intro sorted_insertSorted) simp_all
  then show ?case by (simp add: array_sort_def)
qed

lemma getAllPosts_local:
  assumes "data r = None \<or> data r = Some []"
  shows "getAllPosts L (Inr r) files =
           Inr (array_sort (compareDates L) (List.map_filter (localRecord L) (map snd files)))"
  using assms
  by (auto simp: getAllPosts_def getAllPosts_try_def collectPosts_map_filter)

lemma getAllPosts_remote:
  assumes "data r = Some rows" and "rows \<noteq> []"
  shows "getAllPosts L (Inr r) files = Inr (map rowToPost rows)"
  using assms by (simp add: getAllPosts_def getAllPosts_try_def)

lemma getPostBySlug_local:
  assumes "data r = None"
  shows "getPostBySlug L (Inr r) files s =
           Inr (find (\<lambda>p. BlogFrontMatter.slug p = s)
                  (List.map_filter (localRecord L) (map snd files)))"
  using assms by (simp add: getPostBySlug_def getPostBySlug_try_def findLocal_find)

lemma sample_dates_parse:
  "\<forall>path raw attributes body.
     (path, Inr raw) \<in> set sampleFiles \<and> frontMatter sampleLibs raw = Inr (attributes, body)
     \<longrightarrow> getTime sampleLibs (BlogFrontMatter.date attributes) \<noteq> None"
  by (auto simp: sampleFiles_def sampleLibs_def sample_frontMatter_def sample_getTime_def
      split: if_splits)

lemma sample_local_records:
  "List.map_filter (localRecord sampleLibs) (map snd sampleFiles) =
     [\<lparr>BlogFrontMatter.title = ''Hello'', BlogFrontMatter.date = ''2024-01-01'',
       BlogFrontMatter.slug = ''hello'', BlogFrontMatter.excerpt = ''World'',
       BlogFrontMatter.featuredImage = None, BlogPost.content = ''<p>World</p>\<newline>''\<rparr>,
      \<lparr>BlogFrontMatter.title = ''Again'', BlogFrontMatter.date = ''2024-01-02'',
       BlogFrontMatter.slug = ''again'', BlogFrontMatter.excerpt = ''Again'',
       BlogFrontMatter.featuredImage = None, BlogPost.content = ''<p>Again</p>\<newline>''\<rparr>]"
  by (simp add: localRecord_def sampleFiles_def sampleLibs_def sample_frontMatter_def
      sample_marked_parse_def doc_hello_def doc_again_def doc_broken_def doc_untitled_def)

lemma sample_getAllPosts_local:
  "getAllPosts sampleLibs (Inr \<lparr>data = Some [], response.error = None\<rparr>) sampleFiles =
     Inr [\<lparr>BlogFrontMatter.title = ''Again'', BlogFrontMatter.date = ''2024-01-02'',
            BlogFrontMatter.slug = ''again'', BlogFrontMatter.excerpt = ''Again'',
            BlogFrontMatter.featuredImage = None, BlogPost.content = ''<p>Again</p>\<newline>''\<rparr>,
          \<lparr>BlogFrontMatter.title = ''Hello'', BlogFrontMatter.date = ''2024-01-01'',
            BlogFrontMatter.slug = ''hello'', BlogFrontMatter.excerpt = ''World'',
            BlogFrontMatter.featuredImage = None, BlogPost.content = ''<p>World</p>\<newline>''\<rparr>]"
proof -
  have "getAllPosts sampleLibs (Inr \<lparr>data = Some [], response.error = None\<rparr>) sampleFiles =
      Inr (array_sort (compareDates sampleLibs)
             (List.map_filter (localRecord sampleLibs) (map snd sampleFiles)))"
    by (simp add: getAllPosts_local)
  then show ?thesis
    unfolding sample_local_records
    by (simp add: array_sort_def sortCompare_def compareDates_def sampleLibs_def
        sample_getTime_def)
qed

text \<open>
  Claim C2, as stated: the list returned by \<open>getAllPosts\<close> is sorted by date, newest
  first, whatever its source. It fails on the remote path, where the rows come back in
  the order of the query, by \<^verbatim>\<open>created_at\<close>: a post dated 1 January and inserted on
  3 January precedes a post dated and inserted on 2 January.
\<close>

theorem remote_posts_not_sorted_by_date:
  "getAllPosts sampleLibs
       (Inr \<lparr>data = Some [row_hello, row_again], response.error = None\<rparr>) sampleFiles
     = Inr [rowToPost row_hello, rowToPost row_again]
   \<and> \<not> sorted_wrt (newerOrSame sampleLibs) [rowToPost row_hello, rowToPost row_again]"
  by (simp add: getAllPosts_def getAllPosts_try_def newerOrSame_def rowToPost_def
      row_hello_def row_again_def sampleLibs_def sample_getTime_def)

text \<open>
  Claim C2, amended. When the remote store answers with rows, \<open>getAllPosts\<close> returns
  them in the order of the answer; when it answers with none and the date of every
  local document that parses is one \<^verbatim>\<open>new Date\<close> reads, the list is sorted by date,
  newest first.
\<close>

theorem getAllPosts_order:
  "(data r = Some rows \<and> rows \<noteq> [] \<longrightarrow> getAllPosts L (Inr r) files = Inr (map rowToPost rows))
   \<and> ((data r = None \<or> data r = Some [])
        \<and> (\<forall>path raw attributes body.
              (path, Inr raw) \<in> set files \<and> frontMatter L raw = Inr (attributes, body)
              \<longrightarrow> getTime L (BlogFrontMatter.date attributes) \<noteq> None)
      \<longrightarrow> (\<exists>posts. getAllPosts L (Inr r) files = Inr posts \<and> sorted_wrt (newerOrSame L) posts))"
proof (intro conjI impI)
  show "getAllPosts L (Inr r) files = Inr (map rowToPost rows)"
    if "data r = Some rows \<and> rows \<noteq> []"
    using that by (simp add: getAllPosts_remote)
  show "\<exists>posts. getAllPosts L (Inr r) files = Inr posts \<and> sorted_wrt (newerOrSame L) posts"
    if h: "(data r = None \<or> data r = Some [])
        \<and> (\<forall>path raw attributes body.
              (path, Inr raw) \<in> set files \<and> frontMatter L raw = Inr (attributes, body)
              \<longrightarrow> getTime L (BlogFrontMatter.date attributes) \<noteq> None)"
  proof -
    have "getTime L (BlogFrontMatter.date p) \<noteq> None"
      if "p \<in> set (List.map_filter (localRecord L) (map snd files))" for p
    proof -
      from that obtain path loaded where m: "(path, loaded) \<in> set files"
          and rec: "localRecord L loaded = Some p"
        using map_filter_localRecord_memD by blast
      from localRecord_SomeD [OF rec] obtain raw attributes body where
        "loaded = Inr raw" "frontMatter L raw = Inr (attributes, body)"
        "BlogFrontMatter.date p = BlogFrontMatter.date attributes"
        by blast
      with m h show ?thesis by metis
    qed
    then have "sorted_wrt (newerOrSame L)
        (array_sort (compareDates L) (List.map_filter (localRecord L) (map snd files)))"
      by (intro sorted_array_sort) blast
    with h show ?thesis by (simp add: getAllPosts_local)
  qed
qed

theorem getAllPosts_order_witness:
  "getAllPosts sampleLibs
       (Inr \<lparr>data = Some [row_again, row_hello], response.error = None\<rparr>) sampleFiles
     = Inr [rowToPost row_again, rowToPost row_hello]
   \<and> sorted_wrt (newerOrSame sampleLibs)
       (projr (getAllPosts sampleLibs (Inr \<lparr>data = Some [], response.error = None\<rparr>) sampleFiles))"
proof -
  from getAllPosts_order [where L = sampleLibs and files = sampleFiles
      and r = "\<lparr>data = Some [], response.error = None\<rparr>"] sample_dates_parse
  have "\<exists>posts. getAllPosts sampleLibs (Inr \<lparr>data = Some [], response.error = None\<rparr>) sampleFiles
          = Inr posts \<and> sorted_wrt (newerOrSame sampleLibs) posts"
    by simp
  moreover
  from getAllPosts_order [where L = sampleLibs and files = sampleFiles
      and r = "\<lparr>data = Some [row_again, row_hello], response.error = None\<rparr>"
      and rows = "[row_again, row_hello]"]
  have "getAllPosts sampleLibs
       (Inr \<lparr>data = Some [row_again, row_hello], response.error = None\<rparr>) sampleFiles
     = Inr [rowToPost row_again, rowToPost row_hello]"
    by simp
  ultimately show ?thesis by auto
qed

text \<open>
  Claim C5. When the remote store answers with no rows, \<open>getAllPosts\<close> returns exactly one
  record for each local document that loads, parses and renders, its content the
  sanitizer's output on the rendered body, and none for the others; \<open>getPostBySlug\<close>
  returns the first of these records that has the slug.
\<close>

theorem local_fallback_records:
  "((data r = None \<or> data r = Some [])
      \<longrightarrow> (\<exists>posts. getAllPosts L (Inr r) files = Inr posts
             \<and> mset posts = mset (List.map_filter (localRecord L) (map snd files))))
   \<and> (data r1 = None
      \<longrightarrow> getPostBySlug L (Inr r1) files s =
            Inr (find (\<lambda>p. BlogFrontMatter.slug p = s)
                   (List.map_filter (localRecord L) (map snd files))))"
  by (simp add: getAllPosts_local getPostBySlug_local mset_array_sort)

theorem local_fallback_records_witness:
  "mset (projr (getAllPosts sampleLibs
                  (Inr \<lparr>data = None, response.error = Some (Error ''offline'')\<rparr>) sampleFiles)) =
     {#\<lparr>BlogFrontMatter.title = ''Hello'', BlogFrontMatter.date = ''2024-01-01'',
         BlogFrontMatter.slug = ''hello'', BlogFrontMatter.excerpt = ''World'',
         BlogFrontMatter.featuredImage = None, BlogPost.content = ''<p>World</p>\<newline>''\<rparr>,
       \<lparr>BlogFrontMatter.title = ''Again'', BlogFrontMatter.date = ''2024-01-02'',
         BlogFrontMatter.slug = ''again'', BlogFrontMatter.excerpt = ''Again'',
         BlogFrontMatter.featuredImage = None, BlogPost.content = ''<p>Again</p>\<newline>''\<rparr>#}
   \<and> getPostBySlug sampleLibs
         (Inr \<lparr>data = None, response.error = Some (Error ''offline'')\<rparr>) sampleFiles ''again'' =
       Inr (Some \<lparr>BlogFrontMatter.title = ''Again'', BlogFrontMatter.date = ''2024-01-02'',
         BlogFrontMatter.slug = ''again'', BlogFrontMatter.excerpt = ''Again'',
         BlogFrontMatter.featuredImage = None, BlogPost.content = ''<p>Again</p>\<newline>''\<rparr>)"
proof -
  from local_fallback_records [where L = sampleLibs and files = sampleFiles and s = "''again''"
      and r = "\<lparr>data = None, response.error = Some (Error ''offline'')\<rparr>"
      and ?r1.0 = "\<lparr>data = None, response.error = Some (Error ''offline'')\<rparr>"]
  show ?thesis
    unfolding sample_local_records by auto
qed

text \<open>
  Claim C4, as stated: every record returned has a non-empty title, date and slug. It
  fails for a remote row with an empty title and for a local document whose header
  gives an empty title: both are returned as they are.
\<close>

theorem returned_record_with_empty_title:
  "map BlogFrontMatter.title
       (projr (getAllPosts sampleLibs
                 (Inr \<lparr>data = Some [row_untitled], response.error = None\<rparr>) sampleFiles)) = [ [] ]
   \<and> map BlogFrontMatter.title
       (projr (getAllPosts sampleLibs (Inr \<lparr>data = Some [], response.error = None\<rparr>)
                 [(''/content/blog/untitled.md'', Inr doc_untitled)])) = [ [] ]
   \<and> map_option BlogFrontMatter.title
       (projr (getPostBySlug sampleLibs (Inr \<lparr>data = None, response.error = None\<rparr>)
                 [(''/content/blog/untitled.md'', Inr doc_untitled)] ''untitled'')) = Some []"
proof (intro conjI)
  show "map BlogFrontMatter.title
       (projr (getAllPosts sampleLibs
                 (Inr \<lparr>data = Some [row_untitled], response.error = None\<rparr>) sampleFiles)) = [ [] ]"
    by (simp add: getAllPosts_remote rowToPost_def row_untitled_def)
  have rec: "List.map_filter (localRecord sampleLibs)
          (map snd [(''/content/blog/untitled.md'', Inr doc_untitled)]) =
        [\<lparr>BlogFrontMatter.title = [], BlogFrontMatter.date = ''2024-01-03'',
          BlogFrontMatter.slug = ''untitled'', BlogFrontMatter.excerpt = ''World'',
          BlogFrontMatter.featuredImage = None, BlogPost.content = ''<p>World</p>\<newline>''\<rparr>]"
    by (simp add: localRecord_def sampleLibs_def sample_frontMatter_def
        sample_marked_parse_def doc_hello_def doc_again_def doc_untitled_def)
  show "map BlogFrontMatter.title
       (projr (getAllPosts sampleLibs (Inr \<lparr>data = Some [], response.error = None\<rparr>)
                 [(''/content/blog/untitled.md'', Inr doc_untitled)])) = [ [] ]"
    by (simp only: getAllPosts_local [of "\<lparr>data = Some [], response.error = None\<rparr>", simplified] rec)
       (simp add: array_sort_def)
  show "map_option BlogFrontMatter.title
       (projr (getPostBySlug sampleLibs (Inr \<lparr>data = None, response.error = None\<rparr>)
                 [(''/content/blog/untitled.md'', Inr doc_untitled)] ''untitled'')) = Some []"
    by (simp only: getPostBySlug_local [of "\<lparr>data = None, response.error = None\<rparr>", simplified] rec)
       simp
qed

text \<open>
  Claim C4, amended. Every record returned by \<open>getAllPosts\<close> or \<open>getPostBySlug\<close> has the
  title, date and slug of its source as they stand there, empty or not: of a row of
  the remote answer, or of the parsed header of a local document, and then its content
  is the sanitizer's output on the rendered body.
\<close>

theorem returned_fields_come_from_source:
  "(getAllPosts L remote files = Inr posts \<and> p \<in> set posts
      \<longrightarrow> (\<exists>r rows row. remote = Inr r \<and> data r = Some rows \<and> row \<in> set rows
              \<and> BlogFrontMatter.title p = blog_posts_row.title row
              \<and> BlogFrontMatter.date p = blog_posts_row.date row
              \<and> BlogFrontMatter.slug p = blog_posts_row.slug row)
          \<or> (\<exists>path raw attributes body html.
                (path, Inr raw) \<in> set files \<and> frontMatter L raw = Inr (attributes, body)
                \<and> marked_parse L body = Inr html
                \<and> BlogFrontMatter.title p = BlogFrontMatter.title attributes
                \<and> BlogFrontMatter.date p = BlogFrontMatter.date attributes
                \<and> BlogFrontMatter.slug p = BlogFrontMatter.slug attributes
                \<and> BlogPost.content p = sanitize L html))
   \<and> (getPostBySlug L remote1 files s = Inr (Some q)
      \<longrightarrow> (\<exists>r row. remote1 = Inr r \<and> data r = Some row
              \<and> BlogFrontMatter.title q = blog_posts_row.title row
              \<and> BlogFrontMatter.date q = blog_posts_row.date row
              \<and> BlogFrontMatter.slug q = blog_posts_row.slug row)
          \<or> (\<exists>path raw attributes body html.
                (path, Inr raw) \<in> set files \<and> frontMatter L raw = Inr (attributes, body)
                \<and> marked_parse L body = Inr html
                \<and> BlogFrontMatter.title q = BlogFrontMatter.title attributes
                \<and> BlogFrontMatter.date q = BlogFrontMatter.date attributes
                \<and> BlogFrontMatter.slug q = BlogFrontMatter.slug attributes
                \<and> BlogPost.content q = sanitize L html))"
proof -
  have local: "\<exists>path raw attributes body html.
                (path, Inr raw) \<in> set files \<and> frontMatter L raw = Inr (attributes, body)
                \<and> marked_parse L body = Inr html
                \<and> BlogFrontMatter.title x = BlogFrontMatter.title attributes
                \<and> BlogFrontMatter.date x = BlogFrontMatter.date attributes
                \<and> BlogFrontMatter.slug x = BlogFrontMatter.slug attributes
                \<and> BlogPost.content x = sanitize L html"
    if "x \<in> set (List.map_filter (localRecord L) (map snd files))" for x
  proof -
    from that obtain path loaded where m: "(path, loaded) \<in> set files"
        and rec: "localRecord L loaded = Some x"
      using map_filter_localRecord_memD by blast
    from localRecord_SomeD [OF rec] m show ?thesis by blast
  qed
  show ?thesis
  proof (intro conjI impI)
    assume a: "getAllPosts L remote files = Inr posts \<and> p \<in> set posts"
    show "(\<exists>r rows row. remote = Inr r \<and> data r = Some rows \<and> row \<in> set rows
              \<and> BlogFrontMatter.title p = blog_posts_row.title row
              \<and> BlogFrontMatter.date p = blog_posts_row.date row
              \<and> BlogFrontMatter.slug p = blog_posts_row.slug row)
          \<or> (\<exists>path raw attributes body html.
                (path, Inr raw) \<in> set files \<and> frontMatter L raw = Inr (attributes, body)
                \<and> marked_parse L body = Inr html
                \<and> BlogFrontMatter.title p = BlogFrontMatter.title attributes
                \<and> BlogFrontMatter.date p = BlogFrontMatter.date attributes
                \<and> BlogFrontMatter.slug p = BlogFrontMatter.slug attributes
                \<and> BlogPost.content p = sanitize L html)"
    proof (cases remote)
      case (Inl e)
      with a show ?thesis by (auto simp: getAllPosts_def getAllPosts_try_def)
    next
      case (Inr r)
      show ?thesis
      proof (cases "data r = None \<or> data r = Some []")
        case True
        with a Inr have "p \<in> set (List.map_filter (localRecord L) (map snd files))"
          using getAllPosts_local [OF True, of L files] by (auto simp: set_array_sort)
        then show ?thesis using local by blast
      next
        case False
        then obtain rows where rows: "data r = Some rows" "rows \<noteq> []" by auto
        with a Inr obtain row where "row \<in> set rows" "p = rowToPost row"
          using getAllPosts_remote [OF rows, of L files] by auto
        then have "row \<in> set rows
              \<and> BlogFrontMatter.title p = blog_posts_row.title row
              \<and> BlogFrontMatter.date p = blog_posts_row.date row
              \<and> BlogFrontMatter.slug p = blog_posts_row.slug row"
          by (simp add: rowToPost_def)
        with Inr rows show ?thesis by blast
      qed
    qed
  next
    assume a: "getPostBySlug L remote1 files s = Inr (Some q)"
    show "(\<exists>r row. remote1 = Inr r \<and> data r = Some row
              \<and> BlogFrontMatter.title q = blog_posts_row.title row
              \<and> BlogFrontMatter.date q = blog_posts_row.date row
              \<and> BlogFrontMatter.slug q = blog_posts_row.slug row)
          \<or> (\<exists>path raw attributes body html.
                (path, Inr raw) \<in> set files \<and> frontMatter L raw = Inr (attributes, body)
                \<and> marked_parse L body = Inr html
                \<and> BlogFrontMatter.title q = BlogFrontMatter.title attributes
                \<and> BlogFrontMatter.date q = BlogFrontMatter.date attributes
                \<and> BlogFrontMatter.slug q = BlogFrontMatter.slug attributes
                \<and> BlogPost.content q = sanitize L html)"
    proof (cases remote1)
      case (Inl e)
      with a show ?thesis by (auto simp: getPostBySlug_def getPostBySlug_try_def)
    next
      case (Inr r)
      show ?thesis
      proof (cases "data r")
        case None
        with a Inr have "find (\<lambda>p. BlogFrontMatter.slug p = s)
            (List.map_filter (localRecord L) (map snd files)) = Some q"
          by (simp add: getPostBySlug_local)
        then have "q \<in> set (List.map_filter (localRecord L) (map snd files))"
          by (auto simp: find_Some_iff)
        then show ?thesis using local by blast
      next
        case (Some row)
        with a Inr have "q = rowToPost row"
          by (simp add: getPostBySlug_def getPostBySlug_try_def)
        then have "BlogFrontMatter.title q = blog_posts_row.title row
              \<and> BlogFrontMatter.date q = blog_posts_row.date row
              \<and> BlogFrontMatter.slug q = blog_posts_row.slug row"
          by (simp add: rowToPost_def)
        with Inr Some show ?thesis by blast
      qed
    qed
  qed
qed

theorem returned_fields_come_from_source_witness:
  "getAllPosts sampleLibs (Inr \<lparr>data = Some [], response.error = None\<rparr>) sampleFiles =
     Inr [\<lparr>BlogFrontMatter.title = ''Again'', BlogFrontMatter.date = ''2024-01-02'',
            BlogFrontMatter.slug = ''again'', BlogFrontMatter.excerpt = ''Again'',
            BlogFrontMatter.featuredImage = None, BlogPost.content = ''<p>Again</p>\<newline>''\<rparr>,
          \<lparr>BlogFrontMatter.title = ''Hello'', BlogFrontMatter.date = ''2024-01-01'',
            BlogFrontMatter.slug = ''hello'', BlogFrontMatter.excerpt = ''World'',
            BlogFrontMatter.featuredImage = None, BlogPost.content = ''<p>World</p>\<newline>''\<rparr>]
   \<and> (\<exists>path raw attributes body html.
         (path, Inr raw) \<in> set sampleFiles
         \<and> frontMatter sampleLibs raw = Inr (attributes, body)
         \<and> marked_parse sampleLibs body = Inr html
         \<and> ''Hello'' = BlogFrontMatter.title attributes
         \<and> ''2024-01-01'' = BlogFrontMatter.date attributes
         \<and> ''hello'' = BlogFrontMatter.slug attributes
         \<and> ''<p>World</p>\<newline>'' = sanitize sampleLibs html)"
  using returned_fields_come_from_source [where L = sampleLibs and files = sampleFiles
      and remote = "Inr \<lparr>data = Some [], response.error = None\<rparr>"
      and p = "\<lparr>BlogFrontMatter.title = ''Hello'', BlogFrontMatter.date = ''2024-01-01'',
            BlogFrontMatter.slug = ''hello'', BlogFrontMatter.excerpt = ''World'',
            BlogFrontMatter.featuredImage = None, BlogPost.content = ''<p>World</p>\<newline>''\<rparr>"
      and posts = "[\<lparr>BlogFrontMatter.title = ''Again'', BlogFrontMatter.date = ''2024-01-02'',
            BlogFrontMatter.slug = ''again'', BlogFrontMatter.excerpt = ''Again'',
            BlogFrontMatter.featuredImage = None, BlogPost.content = ''<p>Again</p>\<newline>''\<rparr>,
          \<lparr>BlogFrontMatter.title = ''Hello'', BlogFrontMatter.date = ''2024-01-01'',
            BlogFrontMatter.slug = ''hello'', BlogFrontMatter.excerpt = ''World'',
            BlogFrontMatter.featuredImage = None, BlogPost.content = ''<p>World</p>\<newline>''\<rparr>]"]
    sample_getAllPosts_local
  by simp

text \<open>
  Claim C1. The uploader hands the text of its markdown box to the store as
  \<^verbatim>\<open>content\<close>, and both read operations return the \<^verbatim>\<open>content\<close> of a remote row as it
  is: a draft whose markdown is an \<^verbatim>\<open>img\<close> tag with an \<^verbatim>\<open>onerror\<close> handler reaches the
  consumer unchanged, whatever the renderer and the sanitizer are.
\<close>

theorem uploaded_content_reaches_consumer_raw:
  "map blog_posts_row.content (fst (snd (handleDeploy L now store xssDraft)))
     = [''<img src=x onerror=alert(1)>'']
   \<and> map BlogPost.content
       (projr (getAllPosts L
                 (Inr \<lparr>data = Some (fst (snd (handleDeploy L now store xssDraft))),
                       response.error = None\<rparr>) files))
     = [''<img src=x onerror=alert(1)>'']
   \<and> map_option BlogPost.content
       (projr (getPostBySlug L
                 (Inr \<lparr>data = Some (hd (fst (snd (handleDeploy L now store xssDraft)))),
                       response.error = None\<rparr>) files s))
     = Some ''<img src=x onerror=alert(1)>''"
  by (simp add: handleDeploy_def handleDeploy_begin_def buildPayload_def xssDraft_def
      sampleDraft_def getAllPosts_def getAllPosts_try_def getPostBySlug_def
      getPostBySlug_try_def rowToPost_def split: prod.splits)

section \<open>The uploader\<close>

text \<open>
  Claim C7. Submitting a draft whose title or markdown body is empty calls no insert
  and navigates nowhere; the draft is left as it was, and the only changes of the state
  are the message \<^verbatim>\<open>Title and content are required\<close> as \<open>error\<close> and \<open>isDeploying\<close> back
  to false.
\<close>

theorem handleDeploy_missing_field:
  assumes "metadata.title (metadata st) = [] \<or> markdown st = []"
  shows "handleDeploy L now store st =
           (st\<lparr>uploader_state.error := Some ''Title and content are required'',
               isDeploying := False\<rparr>, [], None)"
  using assms by (auto simp: handleDeploy_def handleDeploy_begin_def deployFailed_def)

theorem handleDeploy_missing_field_witness:
  "markdown (sampleDraft\<lparr>markdown := []\<rparr>) = []
   \<and> handleDeploy sampleLibs ''2024-01-02T10:00:00.000Z'' sampleStore
         (sampleDraft\<lparr>markdown := []\<rparr>) =
       (sampleDraft\<lparr>markdown := [],
                    uploader_state.error := Some ''Title and content are required''\<rparr>, [], None)"
  using handleDeploy_missing_field [of "sampleDraft\<lparr>markdown := []\<rparr>" sampleLibs
      "''2024-01-02T10:00:00.000Z''" sampleStore]
  by (simp add: sampleDraft_def)




text \<open>
  Claim C9, as stated: selecting a file sets the date of the draft to the current date
  at that moment. The date is the one of the moment the component was created: a
  component created late on 1 January still has that date after a file is selected,
  whenever that is, for instance on 2 January.
\<close>

theorem date_is_not_set_at_selection:
  "metadata.date (metadata
       (selectFile sampleLibs \<lparr>name = ''post.html'', type = ''text/html''\<rparr>
          (Inr ''<h1>Hello</h1><p>World</p>'') (initialState ''2024-01-01T23:59:59.000Z'')))
     = ''2024-01-01''
   \<and> currentDate ''2024-01-02T00:00:30.000Z'' = ''2024-01-02''"
  by (simp add: selectFile_def handleFileSelect_def reader_onload_def extractMetadata_def
      initialState_def currentDate_def Let_def)

text \<open>
  Claim C9, amended. For an accepted file whose text is read, file selection sets the
  markdown body to the converted text and the title, slug and excerpt to what is
  extracted from it, records the file and clears the error; it leaves the date and the
  featured image as they were, so that the date of a fresh component is the current
  date of the moment the component was created.
\<close>

theorem selectFile_updates:
  assumes "type selectedFile = ''text/html''
           \<or> endsWith (toLowerCase L (name selectedFile)) ''.html''"
  shows "selectFile L selectedFile (Inr htmlContent) st =
           st\<lparr>file' := Some selectedFile,
              uploader_state.error := None,
              markdown := turndown L htmlContent,
              metadata := (metadata st)
                \<lparr>metadata.title := metadata.title (extractMetadata L (turndown L htmlContent) (metadata st)),
                 metadata.slug := metadata.slug (extractMetadata L (turndown L htmlContent) (metadata st)),
                 metadata.excerpt := metadata.excerpt (extractMetadata L (turndown L htmlContent) (metadata st))\<rparr>\<rparr>
         \<and> metadata.date (metadata (selectFile L selectedFile (Inr htmlContent) st))
             = metadata.date (metadata st)
         \<and> metadata.featuredImage (metadata (selectFile L selectedFile (Inr htmlContent) st))
             = metadata.featuredImage (metadata st)
         \<and> metadata.date (metadata (selectFile L selectedFile (Inr htmlContent) (initialState now)))
             = currentDate now"
  using assms
  by (auto simp: selectFile_def handleFileSelect_def reader_onload_def extractMetadata_def
      initialState_def Let_def)

lemma sample_titleMatch: "titleMatch ''# Hello\<newline>\<newline>World'' = Some ''Hello''"
  by code_simp

lemma sample_excerptMatch: "excerptMatch ''# Hello\<newline>\<newline>World'' = Some ''World''"
  by code_simp

lemma sample_extractMetadata:
  "extractMetadata sampleLibs ''# Hello\<newline>\<newline>World'' m =
     m\<lparr>metadata.title := ''Hello'', metadata.slug := ''hello'', metadata.excerpt := ''World''\<rparr>"
  unfolding extractMetadata_def sample_titleMatch sample_excerptMatch
  by (simp add: sampleLibs_def sample_toLowerCase_def trim_def isWhiteSpace_def)

theorem selectFile_updates_witness:
  "type \<lparr>name = ''post.html'', type = ''text/html''\<rparr> = ''text/html''
   \<and> selectFile sampleLibs \<lparr>name = ''post.html'', type = ''text/html''\<rparr>
         (Inr ''<h1>Hello</h1><p>World</p>'') (initialState ''2024-01-01T23:59:59.000Z'') =
       \<lparr>file' = Some \<lparr>name = ''post.html'', type = ''text/html''\<rparr>,
        markdown = ''# Hello\<newline>\<newline>World'',
        metadata =
          \<lparr>metadata.title = ''Hello'',
           metadata.slug = ''hello'',
           metadata.date = ''2024-01-01'',
           metadata.featuredImage = [],
           metadata.excerpt = ''World''\<rparr>,
        uploader_state.error = None,
        isDeploying = False\<rparr>"
proof -
  have t: "turndown sampleLibs ''<h1>Hello</h1><p>World</p>'' = ''# Hello\<newline>\<newline>World''"
    by (simp add: sampleLibs_def sample_turndown_def)
  from selectFile_updates [of "\<lparr>name = ''post.html'', type = ''text/html''\<rparr>" sampleLibs
      "''<h1>Hello</h1><p>World</p>''" "initialState ''2024-01-01T23:59:59.000Z''"]
  show ?thesis
    unfolding t sample_extractMetadata
    by (simp add: initialState_def currentDate_def)
qed

subsection \<open>One submission at a time\<close>

lemma oneSubmission_step:
  assumes "oneSubmission w"
  shows "oneSubmission (step L w e)"
proof (cases e)
  case (ClickDeploy now)
  show ?thesis
  proof (cases "markdown (ui w) = [] \<or> deployDisabled (ui w)")
    case True
    with assms ClickDeploy show ?thesis by auto
  next
    case False
    then have idle: "\<not> isDeploying (ui w)" and valid: "metadata.title (metadata (ui w)) \<noteq> []"
        "markdown (ui w) \<noteq> []"
      by (auto simp: deployDisabled_def)
    from assms idle have "inflight w = []"
      by (auto simp: oneSubmission_def split: list.splits)
    with False valid ClickDeploy show ?thesis
      by (simp add: oneSubmission_def handleDeploy_begin_def)
  qed
next
  case (InsertSettled settled)
  with assms show ?thesis
    by (auto simp: oneSubmission_def split: list.splits)
next
  case (TitleChange v)
  with assms show ?thesis
    by (auto simp: oneSubmission_def titleChange_def split: list.splits)
next
  case (MarkdownChange v)
  with assms show ?thesis
    by (auto simp: oneSubmission_def markdownChange_def split: list.splits)
next
  case (FileChosen selectedFile)
  with assms show ?thesis
    by (auto simp: oneSubmission_def handleFileSelect_def split: list.splits)
next
  case (ReaderLoaded htmlContent)
  with assms show ?thesis
    by (auto simp: oneSubmission_def reader_onload_def Let_def split: list.splits)
qed

lemma oneSubmission_run:
  assumes "oneSubmission w"
  shows "oneSubmission (run L w events)"
  using assms unfolding run_def
  by (induction events arbitrary: w) (simp_all add: oneSubmission_step)

lemma oneSubmission_length: "oneSubmission w \<Longrightarrow> length (inflight w) \<le> 1"
  by (auto simp: oneSubmission_def split: list.splits)

text \<open>
  Claim C10. From a fresh component, whatever the user does and whenever the inserts
  settle, at most one insert is outstanding at any time: a click on the button while
  one is outstanding finds the button disabled and calls no second insert.
\<close>

theorem at_most_one_insert_in_flight:
  "length (inflight (run L (initialWorld now0) events)) \<le> 1
   \<and> (inflight (run L (initialWorld now0) events) \<noteq> []
      \<longrightarrow> step L (run L (initialWorld now0) events) (ClickDeploy now)
            = run L (initialWorld now0) events)"
proof -
  have inv: "oneSubmission (run L (initialWorld now0) events)"
    by (intro oneSubmission_run) (simp add: oneSubmission_def initialWorld_def)
  then have "length (inflight (run L (initialWorld now0) events)) \<le> 1"
    by (rule oneSubmission_length)
  moreover have "step L (run L (initialWorld now0) events) (ClickDeploy now)
            = run L (initialWorld now0) events"
    if "inflight (run L (initialWorld now0) events) \<noteq> []"
  proof -
    from inv that have "isDeploying (ui (run L (initialWorld now0) events))"
      by (auto simp: oneSubmission_def split: list.splits)
    then show ?thesis by (simp add: deployDisabled_def)
  qed
  ultimately show ?thesis by blast
qed

theorem at_most_one_insert_in_flight_witness:
  "inflight (run sampleLibs (initialWorld ''2024-01-01T23:59:59.000Z'')
       [FileChosen \<lparr>name = ''post.html'', type = ''text/html''\<rparr>,
        ReaderLoaded ''<h1>Hello</h1><p>World</p>'',
        ClickDeploy ''2024-01-02T10:00:00.000Z'']) \<noteq> []
   \<and> run sampleLibs (initialWorld ''2024-01-01T23:59:59.000Z'')
       [FileChosen \<lparr>name = ''post.html'', type = ''text/html''\<rparr>,
        ReaderLoaded ''<h1>Hello</h1><p>World</p>'',
        ClickDeploy ''2024-01-02T10:00:00.000Z'',
        ClickDeploy ''2024-01-02T10:00:01.000Z'']
     = run sampleLibs (initialWorld ''2024-01-01T23:59:59.000Z'')
       [FileChosen \<lparr>name = ''post.html'', type = ''text/html''\<rparr>,
        ReaderLoaded ''<h1>Hello</h1><p>World</p>'',
        ClickDeploy ''2024-01-02T10:00:00.000Z'']"
proof -
  have t: "turndown sampleLibs ''<h1>Hello</h1><p>World</p>'' = ''# Hello\<newline>\<newline>World''"
    by (simp add: sampleLibs_def sample_turndown_def)
  have r: "inflight (run sampleLibs (initialWorld ''2024-01-01T23:59:59.000Z'')
       [FileChosen \<lparr>name = ''post.html'', type = ''text/html''\<rparr>,
        ReaderLoaded ''<h1>Hello</h1><p>World</p>'',
        ClickDeploy ''2024-01-02T10:00:00.000Z'']) \<noteq> []"
    unfolding run_def
    by (simp add: initialWorld_def initialState_def handleFileSelect_def reader_onload_def
        t sample_extractMetadata deployDisabled_def handleDeploy_begin_def Let_def)
  have "run sampleLibs (initialWorld ''2024-01-01T23:59:59.000Z'')
       [FileChosen \<lparr>name = ''post.html'', type = ''text/html''\<rparr>,
        ReaderLoaded ''<h1>Hello</h1><p>World</p>'',
        ClickDeploy ''2024-01-02T10:00:00.000Z'',
        ClickDeploy ''2024-01-02T10:00:01.000Z'']
     = step sampleLibs (run sampleLibs (initialWorld ''2024-01-01T23:59:59.000Z'')
       [FileChosen \<lparr>name = ''post.html'', type = ''text/html''\<rparr>,
        ReaderLoaded ''<h1>Hello</h1><p>World</p>'',
        ClickDeploy ''2024-01-02T10:00:00.000Z'']) (ClickDeploy ''2024-01-02T10:00:01.000Z'')"
    by (simp add: run_def)
  with r at_most_one_insert_in_flight [of sampleLibs "''2024-01-01T23:59:59.000Z''"
      "[FileChosen \<lparr>name = ''post.html'', type = ''text/html''\<rparr>,
        ReaderLoaded ''<h1>Hello</h1><p>World</p>'',
        ClickDeploy ''2024-01-02T10:00:00.000Z'']" "''2024-01-02T10:00:01.000Z''"]
  show ?thesis by simp
qed

section \<open>Metadata extraction\<close>

subsection \<open>The patterns at one position\<close>















subsection \<open>Lines\<close>








subsection \<open>The title pattern, by lines\<close>






subsection \<open>The excerpt pattern, by lines\<close>





subsection \<open>The extraction\<close>




end
